theory Spec2Isabelle
  imports Main "HOL-Library.Sublist"
begin

section \<open>Data model\<close>

text \<open>
  The validator works on trees produced by \<^verbatim>\<open>json.load\<close>: Python dicts, lists,
  strings, numbers, booleans and \<^verbatim>\<open>None\<close>. A dict is kept as an association list in
  insertion order (the order \<^verbatim>\<open>dict.items()\<close> iterates in); its keys are strings and,
  as in every Python dict, pairwise distinct (\<open>wf_json\<close> below). Strings are ASCII
  character lists.
\<close>

datatype json =
    JNull
  | JBool bool
  | JNum int
  | JStr string
  | JArr "json list"
  | JObj "(string \<times> json) list"

type_synonym jdict = "(string \<times> json) list"


text \<open>
  Exceptions of the Python run. \<open>JsValidationError\<close>, \<open>JsSchemaError\<close> and
  \<open>RefResolutionError\<close> are the jsonschema library's; \<open>IncorrectSchema\<close> and
  \<open>MissingSchemaFile\<close> are the two classes the module declares itself.
\<close>

datatype pyexn =
    KeyError
  | TypeError
  | AttributeError
  | RuntimeError
  | IOError
  | YAMLError
  | JSONDecodeError
  | JsValidationError
  | JsSchemaError
  | RefResolutionError
  | HTTPError
  | IncorrectSchema json json
  | MissingSchemaFile string
  | OtherException string

subsection \<open>Python container operations on JSON values\<close>

text \<open>\<^verbatim>\<open>obj[key]\<close> for a string key: a dict raises KeyError on a missing key, every
  other value raises TypeError (lists and strings want integer indices, numbers, booleans
  and None are not subscriptable).\<close>

fun subscript :: "json \<Rightarrow> string \<Rightarrow> pyexn + json" where
  "subscript (JObj kv) key = (case map_of kv key of None \<Rightarrow> Inl KeyError | Some v \<Rightarrow> Inr v)"
| "subscript _ key = Inl TypeError"

text \<open>Lists and dicts are unhashable: using one as a dict key raises TypeError.\<close>

fun hashable :: "json \<Rightarrow> bool" where
  "hashable (JArr _) = False"
| "hashable (JObj _) = False"
| "hashable _ = True"

text \<open>\<^verbatim>\<open>d[key]\<close> on a bundle (a dict with string keys) for an arbitrary JSON key.\<close>

fun dict_getitem :: "jdict \<Rightarrow> json \<Rightarrow> pyexn + json" where
  "dict_getitem d (JStr s) = (case map_of d s of None \<Rightarrow> Inl KeyError | Some v \<Rightarrow> Inr v)"
| "dict_getitem d k = (if hashable k then Inl KeyError else Inl TypeError)"

text \<open>\<^verbatim>\<open>key in d\<close> on a bundle.\<close>

fun dict_contains :: "jdict \<Rightarrow> json \<Rightarrow> pyexn + bool" where
  "dict_contains d (JStr s) = Inr (s \<in> fst ` set d)"
| "dict_contains d k = (if hashable k then Inr False else Inl TypeError)"

text \<open>\<^verbatim>\<open>obj.get(key)\<close>: only dicts have the method; a missing key gives None, which
  is also what a JSON null loads as.\<close>

fun dict_get :: "json \<Rightarrow> string \<Rightarrow> pyexn + json" where
  "dict_get (JObj kv) key = Inr (case map_of kv key of None \<Rightarrow> JNull | Some v \<Rightarrow> v)"
| "dict_get _ key = Inl AttributeError"

definition startswith :: "string \<Rightarrow> string \<Rightarrow> bool" where
  "startswith s p = (take (length p) s = p)"

fun str_find :: "string \<Rightarrow> string \<Rightarrow> bool" where
  "str_find sub [] = (sub = [])"
| "str_find sub (c # cs) = (startswith (c # cs) sub \<or> str_find sub cs)"

text \<open>\<^verbatim>\<open>key in obj\<close> for a string key and an arbitrary value: key membership for a
  dict, element membership for a list, substring test for a string, TypeError otherwise.\<close>

fun contains :: "json \<Rightarrow> string \<Rightarrow> pyexn + bool" where
  "contains (JObj kv) key = Inr (key \<in> fst ` set kv)"
| "contains (JArr xs) key = Inr (JStr key \<in> set xs)"
| "contains (JStr s) key = Inr (str_find key s)"
| "contains _ key = Inl TypeError"

subsection \<open>String helpers\<close>

definition digit_char :: "nat \<Rightarrow> char" where
  "digit_char d = ''0123456789'' ! d"

text \<open>Decimal rendering of a list index, as \<^verbatim>\<open>"{}".format(index)\<close> prints it.\<close>

fun str_nat :: "nat \<Rightarrow> string" where
  "str_nat n = (if n < 10 then [digit_char n] else str_nat (n div 10) @ [digit_char (n mod 10)])"

declare str_nat.simps [simp del]

text \<open>\<^verbatim>\<open>s.split("/")\<close>: always at least one piece.\<close>

fun split_slash :: "string \<Rightarrow> string list" where
  "split_slash [] = [[]]"
| "split_slash (c # cs) =
     (if c = CHR ''/'' then [] # split_slash cs
      else (case split_slash cs of [] \<Rightarrow> [[c]] | w # ws \<Rightarrow> (c # w) # ws))"

text \<open>\<^verbatim>\<open>s.isdigit()\<close> on an ASCII string: non-empty and decimal digits only.\<close>

definition isdigit :: "string \<Rightarrow> bool" where
  "isdigit s = (s \<noteq> [] \<and> list_all (\<lambda>c. c \<in> set ''0123456789'') s)"

section \<open>Reference discovery\<close>

text \<open>
  \<^verbatim>\<open>find_refs(obj, ptr=None, refs=None)\<close>. The Python appends to one list object that
  the recursive calls share; here the list is threaded through the calls. The walk over a
  dict's items and the walk over an enumerated list are the two \<^verbatim>\<open>for\<close> loops.
\<close>

fun find_refs_walk :: "json \<Rightarrow> string \<Rightarrow> (string \<times> json) list \<Rightarrow> (string \<times> json) list"
  and find_refs_items :: "(string \<times> json) list \<Rightarrow> string \<Rightarrow> (string \<times> json) list \<Rightarrow> (string \<times> json) list"
  and find_refs_enum :: "json list \<Rightarrow> nat \<Rightarrow> string \<Rightarrow> (string \<times> json) list \<Rightarrow> (string \<times> json) list"
where
  "find_refs_walk (JObj kv) ptr refs =
     (if ''$ref'' \<in> fst ` set kv then refs @ [(ptr, JObj kv)]
      else find_refs_items kv ptr refs)"
| "find_refs_walk (JArr xs) ptr refs = find_refs_enum xs 0 ptr refs"
| "find_refs_walk JNull ptr refs = refs"
| "find_refs_walk (JBool b) ptr refs = refs"
| "find_refs_walk (JNum n) ptr refs = refs"
| "find_refs_walk (JStr s) ptr refs = refs"
| "find_refs_items [] ptr refs = refs"
| "find_refs_items ((key, item) # kv) ptr refs =
     find_refs_items kv ptr (find_refs_walk item (ptr @ ''/'' @ key) refs)"
| "find_refs_enum [] index ptr refs = refs"
| "find_refs_enum (item # xs) index ptr refs =
     find_refs_enum xs (Suc index) ptr (find_refs_walk item (ptr @ ''/'' @ str_nat index) refs)"

definition find_refs :: "json \<Rightarrow> string option \<Rightarrow> (string \<times> json) list option \<Rightarrow> (string \<times> json) list" where
  "find_refs obj ptr refs =
     find_refs_walk obj (case ptr of None \<Rightarrow> [] | Some p \<Rightarrow> p)
       (case refs of None \<Rightarrow> [] | Some r \<Rightarrow> r)"

section \<open>Schema pointer navigation\<close>

fun get_schema_info_loop :: "json \<Rightarrow> string list \<Rightarrow> pyexn + json" where
  "get_schema_info_loop info [] = Inr info"
| "get_schema_info_loop info (chunk # chunks) =
     (if isdigit chunk then
        (case subscript info ''items'' of
           Inl e \<Rightarrow> Inl e
         | Inr i \<Rightarrow> get_schema_info_loop i chunks)
      else
        (case subscript info ''properties'' of
           Inl e \<Rightarrow> Inl e
         | Inr props \<Rightarrow>
            (case subscript props chunk of
               Inl e \<Rightarrow> Inl e
             | Inr i \<Rightarrow> get_schema_info_loop i chunks)))"

definition get_schema_info_from_pointer :: "json \<Rightarrow> string \<Rightarrow> pyexn + json" where
  "get_schema_info_from_pointer schema ptr = get_schema_info_loop schema (tl (split_slash ptr))"

section \<open>Resource discovery\<close>

text \<open>\<^verbatim>\<open>find_resource_paths\<close>: the same traversal, triggered by
  \<^verbatim>\<open>'provider' in obj and obj['provider'] == 'resource' and 'path' in obj\<close>.\<close>

definition is_resource :: "(string \<times> json) list \<Rightarrow> bool" where
  "is_resource kv =
     (''provider'' \<in> fst ` set kv \<and> map_of kv ''provider'' = Some (JStr ''resource'')
      \<and> ''path'' \<in> fst ` set kv)"

fun find_resource_paths_walk :: "json \<Rightarrow> string \<Rightarrow> (string \<times> json) list \<Rightarrow> (string \<times> json) list"
  and find_resource_paths_items :: "(string \<times> json) list \<Rightarrow> string \<Rightarrow> (string \<times> json) list \<Rightarrow> (string \<times> json) list"
  and find_resource_paths_enum :: "json list \<Rightarrow> nat \<Rightarrow> string \<Rightarrow> (string \<times> json) list \<Rightarrow> (string \<times> json) list"
where
  "find_resource_paths_walk (JObj kv) ptr paths =
     (if is_resource kv then paths @ [(ptr, JObj kv)]
      else find_resource_paths_items kv ptr paths)"
| "find_resource_paths_walk (JArr xs) ptr paths = find_resource_paths_enum xs 0 ptr paths"
| "find_resource_paths_walk JNull ptr paths = paths"
| "find_resource_paths_walk (JBool b) ptr paths = paths"
| "find_resource_paths_walk (JNum n) ptr paths = paths"
| "find_resource_paths_walk (JStr s) ptr paths = paths"
| "find_resource_paths_items [] ptr paths = paths"
| "find_resource_paths_items ((key, item) # kv) ptr paths =
     find_resource_paths_items kv ptr (find_resource_paths_walk item (ptr @ ''/'' @ key) paths)"
| "find_resource_paths_enum [] index ptr paths = paths"
| "find_resource_paths_enum (item # xs) index ptr paths =
     find_resource_paths_enum xs (Suc index) ptr
       (find_resource_paths_walk item (ptr @ ''/'' @ str_nat index) paths)"

definition find_resource_paths :: "json \<Rightarrow> string option \<Rightarrow> (string \<times> json) list option \<Rightarrow> (string \<times> json) list" where
  "find_resource_paths obj ptr paths =
     find_resource_paths_walk obj (case ptr of None \<Rightarrow> [] | Some p \<Rightarrow> p)
       (case paths of None \<Rightarrow> [] | Some r \<Rightarrow> r)"

section \<open>Validation outcomes\<close>

datatype kind = SCHEMA | DATA_FILE | REF | RESOURCE_PATH

fun kind_value :: "kind \<Rightarrow> string" where
  "kind_value SCHEMA = ''SCHEMA''"
| "kind_value DATA_FILE = ''FILE''"
| "kind_value REF = ''REF''"
| "kind_value RESOURCE_PATH = ''RESOURCE_PATH''"

text \<open>The \<^verbatim>\<open>error\<close> argument of \<^verbatim>\<open>ValidationError\<close> is a caught exception or a
  message string.\<close>

datatype errinfo = Exc pyexn | Text string

text \<open>\<^verbatim>\<open>ValidationOK(kind, filename, schema_url)\<close>,
  \<^verbatim>\<open>ValidationRefOK(kind, filename, ref, schema_url)\<close> and
  \<^verbatim>\<open>ValidationError(kind, filename, reason, error, **kwargs)\<close>.\<close>

datatype outcome =
    ValidationOK kind string json
  | ValidationRefOK kind string json json
  | ValidationError kind string string errinfo "(string \<times> json) list"


text \<open>What \<^verbatim>\<open>dump()\<close> serialises, without the two free-text fields (the summary line
  and the error message).\<close>

record dumped =
  d_filename :: string
  d_kind :: string
  d_ref :: "json option"
  d_status :: string
  d_reason :: "string option"
  d_fields :: "(string \<times> json) list"

fun dump :: "outcome \<Rightarrow> dumped" where
  "dump (ValidationOK k f u) =
     \<lparr>d_filename = f, d_kind = kind_value k, d_ref = None, d_status = ''OK'',
      d_reason = None, d_fields = [(''schema_url'', u)]\<rparr>"
| "dump (ValidationRefOK k f r u) =
     \<lparr>d_filename = f, d_kind = kind_value k, d_ref = Some r, d_status = ''OK'',
      d_reason = None, d_fields = [(''schema_url'', u), (''ref'', r)]\<rparr>"
| "dump (ValidationError k f reason e kw) =
     \<lparr>d_filename = f, d_kind = kind_value k, d_ref = None, d_status = ''ERROR'',
      d_reason = Some reason, d_fields = kw\<rparr>"


section \<open>External collaborators\<close>

text \<open>
  The libraries the module calls, as parameters of the run:
  \<^item> \<open>draft4_check_schema s\<close>: \<^verbatim>\<open>jsonschema.Draft4Validator.check_schema(s)\<close>;
  \<^item> \<open>draft4_validate resolver s x\<close>:
    \<^verbatim>\<open>jsonschema.Draft4Validator(s, resolver=...).validate(x)\<close>, the resolver given by
    its base URI, its referrer and the bundle its empty-scheme handler reads;
  \<^item> \<open>requests_get url\<close>: \<^verbatim>\<open>requests.get\<close>, \<^verbatim>\<open>raise_for_status\<close> and
    \<^verbatim>\<open>anymarkup.parse\<close> of the body;
  \<^item> \<open>open_file\<close>, \<open>yaml_load\<close>, \<open>json_load\<close>: the filesystem and the two parsers.
  \<open>None\<close> (or \<open>Inr\<close>) is a normal return, \<open>Some e\<close> (or \<open>Inl e\<close>) the exception raised.
\<close>

record env =
  draft4_check_schema :: "json \<Rightarrow> pyexn option"
  draft4_validate :: "(string \<times> json \<times> jdict) option \<Rightarrow> json \<Rightarrow> json \<Rightarrow> pyexn option"
  requests_get :: "string \<Rightarrow> pyexn + json"
  open_file :: "string \<Rightarrow> pyexn + string"
  yaml_load :: "string \<Rightarrow> pyexn + json"
  json_load :: "string \<Rightarrow> pyexn + json"

section \<open>The validators\<close>

definition fetch_schema :: "env \<Rightarrow> json \<Rightarrow> pyexn + json" where
  "fetch_schema env schema_url =
     (case schema_url of
        JStr s \<Rightarrow> if startswith s ''http'' then requests_get env s else Inl (MissingSchemaFile s)
      | _ \<Rightarrow> Inl AttributeError)"

text \<open>\<^verbatim>\<open>validate_schema\<close> returns its outcome together with the schema bundle, which
  it extends with a fetched meta-schema.\<close>

definition validate_schema_check :: "env \<Rightarrow> jdict \<Rightarrow> string \<Rightarrow> json \<Rightarrow> json \<Rightarrow> json \<Rightarrow> pyexn + outcome" where
  "validate_schema_check env schemas_bundle filename schema_data meta_schema_url meta_schema =
     (let raised =
        (case draft4_check_schema env schema_data of
           Some e \<Rightarrow> Some e
         | None \<Rightarrow> draft4_validate env (Some (filename, schema_data, schemas_bundle))
                     meta_schema schema_data)
      in case raised of
           None \<Rightarrow> Inr (ValidationOK SCHEMA filename meta_schema_url)
         | Some e \<Rightarrow>
             if e = JsValidationError then
               Inr (ValidationError SCHEMA filename ''VALIDATION_ERROR'' (Exc e)
                      [(''meta_schema_url'', meta_schema_url)])
             else if e = JsSchemaError \<or> e = RefResolutionError then
               Inr (ValidationError SCHEMA filename ''SCHEMA_ERROR'' (Exc e)
                      [(''meta_schema_url'', meta_schema_url)])
             else Inl e)"

definition validate_schema :: "env \<Rightarrow> jdict \<Rightarrow> string \<Rightarrow> json \<Rightarrow> pyexn + (outcome \<times> jdict)" where
  "validate_schema env schemas_bundle filename schema_data =
     (case subscript schema_data ''$schema'' of
        Inl e \<Rightarrow>
          if e = KeyError then
            Inr (ValidationError SCHEMA filename ''MISSING_SCHEMA_URL'' (Exc e) [], schemas_bundle)
          else Inl e
      | Inr meta_schema_url \<Rightarrow>
          (case dict_contains schemas_bundle meta_schema_url of
             Inl e \<Rightarrow> Inl e
           | Inr present \<Rightarrow>
               (case (if present then dict_getitem schemas_bundle meta_schema_url
                      else fetch_schema env meta_schema_url) of
                  Inl e \<Rightarrow> Inl e
                | Inr meta_schema \<Rightarrow>
                    (let schemas_bundle' =
                       (if present then schemas_bundle
                        else (case meta_schema_url of
                                JStr s \<Rightarrow> schemas_bundle @ [(s, meta_schema)]
                              | _ \<Rightarrow> schemas_bundle))
                     in case validate_schema_check env schemas_bundle' filename schema_data
                               meta_schema_url meta_schema of
                          Inl e \<Rightarrow> Inl e
                        | Inr r \<Rightarrow> Inr (r, schemas_bundle')))))"

definition validate_file :: "env \<Rightarrow> jdict \<Rightarrow> string \<Rightarrow> json \<Rightarrow> pyexn + outcome" where
  "validate_file env schemas_bundle filename data =
     (case subscript data ''$schema'' of
        Inl e \<Rightarrow>
          if e = KeyError then
            Inr (ValidationError DATA_FILE filename ''MISSING_SCHEMA_URL'' (Exc e) [])
          else Inl e
      | Inr v \<Rightarrow>
          (case v of
             JStr raw \<Rightarrow>
               (let schema_url =
                  (if \<not> startswith raw ''http'' \<and> \<not> startswith raw ''/'' then ''/'' @ raw
                   else raw)
                in case map_of schemas_bundle schema_url of
                     None \<Rightarrow>
                       Inr (ValidationError DATA_FILE filename ''SCHEMA_NOT_FOUND'' (Exc KeyError)
                              [(''schema_url'', JStr schema_url)])
                   | Some schema \<Rightarrow>
                       (case draft4_validate env (Some (schema_url, schema, schemas_bundle))
                               schema data of
                          None \<Rightarrow> Inr (ValidationOK DATA_FILE filename (JStr schema_url))
                        | Some e \<Rightarrow>
                            if e = JsValidationError then
                              Inr (ValidationError DATA_FILE filename ''VALIDATION_ERROR'' (Exc e)
                                     [(''schema_url'', JStr schema_url)])
                            else if e = JsSchemaError then
                              Inr (ValidationError DATA_FILE filename ''SCHEMA_ERROR'' (Exc e)
                                     [(''schema_url'', JStr schema_url)])
                            else if e = TypeError then
                              Inr (ValidationError DATA_FILE filename ''SCHEMA_TYPE_ERROR'' (Exc e)
                                     [(''schema_url'', JStr schema_url)])
                            else Inl e))
           | _ \<Rightarrow> Inl AttributeError))"

text \<open>The \<^verbatim>\<open>$schemaRef\<close> cross-check of \<^verbatim>\<open>validate_ref\<close> (source lines 269 to 289),
  reached once the reference, the schema and the schema node have been found.\<close>

definition validate_ref_expected :: "env \<Rightarrow> string \<Rightarrow> json \<Rightarrow> json \<Rightarrow> json \<Rightarrow> json \<Rightarrow> pyexn + outcome" where
  "validate_ref_expected env filename refv schema_url ref_data schema_info =
     (case dict_get schema_info ''$schemaRef'' of
        Inl e \<Rightarrow> Inl e
      | Inr expected_schema \<Rightarrow>
          if expected_schema \<noteq> JNull then
            (case expected_schema of
               JStr s \<Rightarrow>
                 (case subscript ref_data ''$schema'' of
                    Inl e \<Rightarrow> Inl e
                  | Inr got \<Rightarrow>
                      if expected_schema \<noteq> got then
                        Inr (ValidationError REF filename ''INCORRECT_SCHEMA''
                               (Exc (IncorrectSchema got expected_schema)) [(''ref'', refv)])
                      else Inr (ValidationRefOK REF filename refv schema_url))
             | _ \<Rightarrow>
                 (case draft4_validate env None expected_schema ref_data of
                    None \<Rightarrow> Inr (ValidationRefOK REF filename refv schema_url)
                  | Some e \<Rightarrow>
                      if e = JsValidationError then
                        Inr (ValidationError REF filename ''SCHEMA_REF_VALIDATION_ERROR'' (Exc e) [])
                      else Inl e))
          else Inr (ValidationRefOK REF filename refv schema_url))"

definition validate_ref :: "env \<Rightarrow> jdict \<Rightarrow> jdict \<Rightarrow> string \<Rightarrow> json \<Rightarrow> string \<Rightarrow> json \<Rightarrow> pyexn + outcome" where
  "validate_ref env schemas_bundle bundle filename data ptr ref =
     (case subscript ref ''$ref'' of
        Inl e \<Rightarrow> Inl e
      | Inr refv \<Rightarrow>
          (case dict_getitem bundle refv of
             Inl e \<Rightarrow>
               if e = KeyError then
                 Inr (ValidationError REF filename ''FILE_NOT_FOUND'' (Exc e) [(''ref'', refv)])
               else Inl e
           | Inr ref_data \<Rightarrow>
               (case (case subscript data ''$schema'' of
                        Inl e \<Rightarrow> Inl e
                      | Inr u \<Rightarrow> (case dict_getitem schemas_bundle u of
                                    Inl e \<Rightarrow> Inl e
                                  | Inr schema \<Rightarrow> Inr (u, schema))) of
                  Inl e \<Rightarrow>
                    if e = KeyError then
                      Inr (ValidationError REF filename ''SCHEMA_NOT_FOUND'' (Exc e) [(''ref'', refv)])
                    else Inl e
                | Inr (schema_url, schema) \<Rightarrow>
                    (case get_schema_info_from_pointer schema ptr of
                       Inl e \<Rightarrow>
                         if e = KeyError then
                           Inr (ValidationError REF filename ''SCHEMA_DEFINITION_NOT_FOUND'' (Exc e)
                                  [(''ref'', refv)])
                         else Inl e
                     | Inr schema_info \<Rightarrow>
                         validate_ref_expected env filename refv schema_url ref_data schema_info))))"

subsection \<open>Resource paths\<close>

text \<open>\<^verbatim>\<open>s.rfind(c)\<close>: the last index of \<open>c\<close>, or \<open>-1\<close>.\<close>

definition rfind :: "string \<Rightarrow> char \<Rightarrow> int" where
  "rfind s c = (case filter (\<lambda>i. s ! i = c) (rev [0..<length s]) of [] \<Rightarrow> - 1 | i # _ \<Rightarrow> int i)"

text \<open>\<^verbatim>\<open>os.path.splitext\<close> (POSIX): the extension starts at the last dot of the last
  path component, unless that component has nothing but dots before it.\<close>

definition splitext :: "string \<Rightarrow> string \<times> string" where
  "splitext p =
     (let sepIndex = rfind p CHR ''/''; dotIndex = rfind p CHR ''.'' in
      if dotIndex > sepIndex
         \<and> list_ex (\<lambda>i. p ! i \<noteq> CHR ''.'') [nat (sepIndex + 1)..<nat dotIndex]
      then (take (nat dotIndex) p, drop (nat dotIndex) p)
      else (p, []))"

definition valid_json_ext :: "string list" where
  "valid_json_ext = [''.json'']"

definition valid_yaml_ext :: "string list" where
  "valid_yaml_ext = [''.yml'', ''.yaml'']"

definition valid_extensions :: "string list" where
  "valid_extensions = valid_json_ext @ valid_yaml_ext"

text \<open>The body of the \<^verbatim>\<open>with open(...)\<close> block. The extension is one of the three valid
  ones here, so exactly one of the two parsers runs.\<close>

definition load_resource :: "env \<Rightarrow> string \<Rightarrow> string \<Rightarrow> pyexn + json" where
  "load_resource env real_res_path ext =
     (case open_file env real_res_path of
        Inl e \<Rightarrow> Inl e
      | Inr fh \<Rightarrow> if ext \<in> set valid_yaml_ext then yaml_load env fh else json_load env fh)"

text \<open>\<^verbatim>\<open>all(k in resourcedata for k in keys)\<close>: stops at the first missing key, and
  raises what the membership test raises.\<close>

fun all_in :: "json \<Rightarrow> string list \<Rightarrow> pyexn + bool" where
  "all_in obj [] = Inr True"
| "all_in obj (k # ks) =
     (case contains obj k of
        Inl e \<Rightarrow> Inl e
      | Inr b \<Rightarrow> if b then all_in obj ks else Inr False)"

text \<open>The structural checks on the parsed resource (source lines 345 to 366).\<close>

definition validate_resource_object :: "string \<Rightarrow> json \<Rightarrow> json \<Rightarrow> string \<Rightarrow> json \<Rightarrow> pyexn + outcome" where
  "validate_resource_object filename data pathv real_res_path resourcedata =
     (case all_in resourcedata [''apiVersion'', ''metadata'', ''kind''] of
        Inl e \<Rightarrow> Inl e
      | Inr ok \<Rightarrow>
          if \<not> ok then
            Inr (ValidationError RESOURCE_PATH filename ''INVALID_OBJECT''
                   (Text (''Resource file is not a valid kubernetes object: '' @ real_res_path))
                   [(''res'', pathv)])
          else
            (case subscript resourcedata ''kind'' of
               Inl e \<Rightarrow> Inl e
             | Inr k \<Rightarrow>
                 (case (if k \<in> set [JStr ''ConfigMap'', JStr ''Secret'']
                        then contains resourcedata ''data'' else Inr True) of
                    Inl e \<Rightarrow> Inl e
                  | Inr has_data \<Rightarrow>
                      if \<not> has_data then
                        Inr (ValidationError RESOURCE_PATH filename ''INVALID_OBJECT''
                               (Text (''ConfigMap or Secret resource file is missing a data field: ''
                                      @ real_res_path))
                               [(''res'', pathv)])
                      else
                        (case subscript data ''$schema'' of
                           Inl e \<Rightarrow> Inl e
                         | Inr u \<Rightarrow> Inr (ValidationRefOK RESOURCE_PATH filename pathv u)))))"

text \<open>\<^verbatim>\<open>validate_resource_paths\<close>. A path that is not a string makes
  \<^verbatim>\<open>os.path.splitext\<close> raise TypeError; \<^verbatim>\<open>len(file_ext) != 2\<close> is never true.\<close>

definition validate_resource_paths :: "env \<Rightarrow> jdict \<Rightarrow> jdict \<Rightarrow> string \<Rightarrow> json \<Rightarrow> string \<Rightarrow> json \<Rightarrow> pyexn + outcome" where
  "validate_resource_paths env schemas_bundle bundle filename data ptr res =
     (case subscript res ''path'' of
        Inl e \<Rightarrow> Inl e
      | Inr pathv \<Rightarrow>
          (case pathv of
             JStr path \<Rightarrow>
               (let file_ext = splitext path; real_res_path = ''resources'' @ path in
                if snd file_ext \<notin> set valid_extensions then
                  Inr (ValidationError RESOURCE_PATH filename ''MISSING_EXTENSION''
                         (Text ''The resource file extension should end in one of the following: .json, .yml, .yaml'')
                         [(''res'', pathv)])
                else
                  (case load_resource env real_res_path (snd file_ext) of
                     Inl e \<Rightarrow>
                       if e = IOError then
                         Inr (ValidationError RESOURCE_PATH filename ''FILE_NOT_FOUND''
                                (Text (''Resource file could not be found: '' @ real_res_path))
                                [(''res'', pathv)])
                       else if e = YAMLError then
                         Inr (ValidationError RESOURCE_PATH filename ''INVALID_YAML''
                                (Text (''Resource file could not be parsed as valid YAML: ''
                                       @ real_res_path))
                                [(''res'', pathv)])
                       else if e = JSONDecodeError then
                         Inr (ValidationError RESOURCE_PATH filename ''INVALID_JSON''
                                (Text (''Resource file could not be parsed as valid JSON: ''
                                       @ real_res_path))
                                [(''res'', pathv)])
                       else Inl e
                   | Inr resourcedata \<Rightarrow>
                       validate_resource_object filename data pathv real_res_path resourcedata))
           | _ \<Rightarrow> Inl TypeError))"

section \<open>The orchestrator\<close>

text \<open>A list comprehension whose element expression may raise: the first exception ends it.\<close>

fun listcomp :: "('a \<Rightarrow> pyexn + 'b) \<Rightarrow> 'a list \<Rightarrow> pyexn + 'b list" where
  "listcomp f [] = Inr []"
| "listcomp f (x # xs) =
     (case f x of
        Inl e \<Rightarrow> Inl e
      | Inr y \<Rightarrow> (case listcomp f xs of Inl e \<Rightarrow> Inl e | Inr ys \<Rightarrow> Inr (y # ys)))"

text \<open>\<^verbatim>\<open>d.items()\<close>: only a dict has the method.\<close>

fun py_items :: "json \<Rightarrow> pyexn + (string \<times> json) list" where
  "py_items (JObj kv) = Inr kv"
| "py_items _ = Inl AttributeError"

text \<open>
  The comprehension over \<^verbatim>\<open>schemas_bundle.items()\<close>. \<^verbatim>\<open>validate_schema\<close> may insert a
  fetched meta-schema into the very dict being iterated; Python 3 then raises RuntimeError
  (dictionary changed size during iteration) when the iterator is advanced, also after
  the last item.
\<close>

fun schemas_loop :: "env \<Rightarrow> (string \<times> json) list \<Rightarrow> jdict \<Rightarrow> pyexn + (dumped list \<times> jdict)" where
  "schemas_loop env [] schemas_bundle = Inr ([], schemas_bundle)"
| "schemas_loop env ((filename, schema_data) # rest) schemas_bundle =
     (case validate_schema env schemas_bundle filename schema_data of
        Inl e \<Rightarrow> Inl e
      | Inr (r, schemas_bundle') \<Rightarrow>
          if length schemas_bundle' \<noteq> length schemas_bundle then Inl RuntimeError
          else (case schemas_loop env rest schemas_bundle' of
                  Inl e \<Rightarrow> Inl e
                | Inr (rs, sb) \<Rightarrow> Inr (dump r # rs, sb)))"

definition dump_result :: "pyexn + outcome \<Rightarrow> pyexn + dumped" where
  "dump_result r = (case r of Inl e \<Rightarrow> Inl e | Inr v \<Rightarrow> Inr (dump v))"

text \<open>The two-level comprehensions \<^verbatim>\<open>for filename, data in ... for ptr, x in find(data)\<close>.\<close>

definition nested_comp :: "(string \<Rightarrow> json \<Rightarrow> string \<Rightarrow> json \<Rightarrow> pyexn + outcome) \<Rightarrow> (json \<Rightarrow> (string \<times> json) list) \<Rightarrow> (string \<times> json) list \<Rightarrow> pyexn + dumped list" where
  "nested_comp validate finder data_items =
     (case listcomp (\<lambda>(filename, data).
              listcomp (\<lambda>(ptr, x). dump_result (validate filename data ptr x)) (finder data))
            data_items of
        Inl e \<Rightarrow> Inl e
      | Inr rss \<Rightarrow> Inr (concat rss))"

record run =
  results :: "dumped list"
  errors :: "dumped list"
  written :: "dumped list"
  exit_status :: int

text \<open>\<^verbatim>\<open>main\<close>, from the decoded bundle on. \<open>written\<close> is the list printed to standard
  output; an \<open>Inl\<close> result is an exception that leaves \<^verbatim>\<open>main\<close> (nothing is printed).\<close>

definition main :: "env \<Rightarrow> bool \<Rightarrow> json \<Rightarrow> pyexn + run" where
  "main env only_errors bundle =
     (case subscript bundle ''data'' of
        Inl e \<Rightarrow> Inl e
      | Inr data_bundle \<Rightarrow>
     (case subscript bundle ''schemas'' of
        Inl e \<Rightarrow> Inl e
      | Inr schemas_json \<Rightarrow>
     (case py_items schemas_json of
        Inl e \<Rightarrow> Inl e
      | Inr schema_items \<Rightarrow>
     (case schemas_loop env schema_items schema_items of
        Inl e \<Rightarrow> Inl e
      | Inr (results_schemas, schemas_bundle) \<Rightarrow>
     (case py_items data_bundle of
        Inl e \<Rightarrow> Inl e
      | Inr data_items \<Rightarrow>
     (case listcomp (\<lambda>(filename, data). dump_result (validate_file env schemas_bundle filename data))
             data_items of
        Inl e \<Rightarrow> Inl e
      | Inr results_files \<Rightarrow>
     (case nested_comp (validate_ref env schemas_bundle data_items)
             (\<lambda>data. find_refs data None None) data_items of
        Inl e \<Rightarrow> Inl e
      | Inr results_refs \<Rightarrow>
     (case nested_comp (validate_resource_paths env schemas_bundle data_items)
             (\<lambda>data. find_resource_paths data None None) data_items of
        Inl e \<Rightarrow> Inl e
      | Inr results_res_paths \<Rightarrow>
          (let results = results_schemas @ results_files @ results_refs @ results_res_paths;
               errors = filter (\<lambda>x. d_status x = ''ERROR'') results
           in Inr \<lparr>results = results, errors = errors,
                   written = (if only_errors then errors else results),
                   exit_status = (if length errors > 0 then 1 else 0)\<rparr>)))))))))"

section \<open>Locations inside a document\<close>














section \<open>Concrete inputs\<close>

text \<open>An environment in which every library call succeeds and every resource file holds a
  Deployment object.\<close>

definition deployment :: json where
  "deployment =
     JObj [(''apiVersion'', JStr ''apps/v1''), (''kind'', JStr ''Deployment''),
           (''metadata'', JObj [(''name'', JStr ''web'')])]"

definition env_ok :: env where
  "env_ok =
     \<lparr>draft4_check_schema = (\<lambda>s. None),
      draft4_validate = (\<lambda>resolver s x. None),
      requests_get = (\<lambda>url. Inr (JObj [])),
      open_file = (\<lambda>path. Inr []),
      yaml_load = (\<lambda>text. Inr deployment),
      json_load = (\<lambda>text. Inr deployment)\<rparr>"


text \<open>A reference object \<open>{"$ref": "E"}\<close> and a resource descriptor.\<close>

definition ref_E :: json where
  "ref_E = JObj [(''$ref'', JStr ''E'')]"

definition res_a :: json where
  "res_a = JObj [(''provider'', JStr ''resource''), (''path'', JStr ''/a.yml'')]"







section \<open>Schema pointer navigation: properties\<close>







section \<open>Documents without a schema identifier\<close>

lemma subscript_missing: "key \<notin> fst ` set kv \<Longrightarrow> subscript (JObj kv) key = Inl KeyError"
  by (simp add: map_of_eq_None_iff[THEN iffD2])

lemma dict_getitem_cases:
  "hashable k \<Longrightarrow> dict_getitem d k = Inl KeyError \<or> (\<exists>v. dict_getitem d k = Inr v)"
  by (cases k) (auto split: option.splits)

text \<open>
  Claim C1, as amended. For a document (a JSON object) without the key \<open>$schema\<close>,
  \<open>validate_schema\<close> and \<open>validate_file\<close> return an Error with reason
  \<open>MISSING_SCHEMA_URL\<close>, whatever else the document holds. \<open>validate_ref\<close> has no such
  reason: for a reference whose \<open>$ref\<close> value is hashable it returns an Error with reason
  \<open>FILE_NOT_FOUND\<close> when the value names no document of the data bundle, and with reason
  \<open>SCHEMA_NOT_FOUND\<close> otherwise.
\<close>

theorem missing_schema_key_outcomes:
  "''$schema'' \<notin> fst ` set kv \<longrightarrow>
     validate_schema env schemas_bundle filename (JObj kv)
       = Inr (ValidationError SCHEMA filename ''MISSING_SCHEMA_URL'' (Exc KeyError) [], schemas_bundle)
     \<and> validate_file env schemas_bundle filename (JObj kv)
       = Inr (ValidationError DATA_FILE filename ''MISSING_SCHEMA_URL'' (Exc KeyError) [])
     \<and> (subscript ref ''$ref'' = Inr refv \<and> hashable refv \<longrightarrow>
          validate_ref env schemas_bundle bundle filename (JObj kv) ptr ref
            = Inr (ValidationError REF filename
                     (if dict_getitem bundle refv = Inl KeyError then ''FILE_NOT_FOUND''
                      else ''SCHEMA_NOT_FOUND'')
                     (Exc KeyError) [(''ref'', refv)]))"
proof (intro impI conjI)
  assume m: "''$schema'' \<notin> fst ` set kv"
  then have s: "subscript (JObj kv) ''$schema'' = Inl KeyError"
    by (rule subscript_missing)
  show "validate_schema env schemas_bundle filename (JObj kv)
       = Inr (ValidationError SCHEMA filename ''MISSING_SCHEMA_URL'' (Exc KeyError) [], schemas_bundle)"
    unfolding validate_schema_def s by simp
  show "validate_file env schemas_bundle filename (JObj kv)
       = Inr (ValidationError DATA_FILE filename ''MISSING_SCHEMA_URL'' (Exc KeyError) [])"
    unfolding validate_file_def s by simp
  assume r: "subscript ref ''$ref'' = Inr refv \<and> hashable refv"
  then consider (absent) "dict_getitem bundle refv = Inl KeyError"
    | (present) v where "dict_getitem bundle refv = Inr v"
    using dict_getitem_cases[of refv "bundle"] by blast
  then show "validate_ref env schemas_bundle bundle filename (JObj kv) ptr ref
            = Inr (ValidationError REF filename
                     (if dict_getitem bundle refv = Inl KeyError then ''FILE_NOT_FOUND''
                      else ''SCHEMA_NOT_FOUND'')
                     (Exc KeyError) [(''ref'', refv)])"
  proof cases
    case absent
    then show ?thesis using r unfolding validate_ref_def by simp
  next
    case present
    then show ?thesis using r unfolding validate_ref_def s by simp
  qed
qed

theorem missing_schema_key_outcomes_witness:
  "validate_schema env_ok [] ''S'' (JObj [(''type'', JStr ''object'')])
     = Inr (ValidationError SCHEMA ''S'' ''MISSING_SCHEMA_URL'' (Exc KeyError) [], [])
   \<and> validate_file env_ok [] ''D'' (JObj [(''type'', JStr ''object'')])
     = Inr (ValidationError DATA_FILE ''D'' ''MISSING_SCHEMA_URL'' (Exc KeyError) [])
   \<and> validate_ref env_ok [] [] ''D'' (JObj [(''type'', JStr ''object'')]) ''/x'' ref_E
     = Inr (ValidationError REF ''D'' ''FILE_NOT_FOUND'' (Exc KeyError) [(''ref'', JStr ''E'')])"
  using missing_schema_key_outcomes[of "[(''type'', JStr ''object'')]" env_ok "[]" "''S''"]
    missing_schema_key_outcomes[of "[(''type'', JStr ''object'')]" env_ok "[]" "''D''" ref_E "JStr ''E''" "[]" "''/x''"]
  by (simp add: ref_E_def)

text \<open>
  Claim C1 as stated fails for \<open>validate_ref\<close>: the document \<open>{"x": {"$ref": "E"}}\<close> has
  no \<open>$schema\<close> key, \<open>E\<close> is in the data bundle, and the outcome is an Error with reason
  \<open>SCHEMA_NOT_FOUND\<close>, not \<open>MISSING_SCHEMA_URL\<close>.
\<close>

theorem validate_ref_missing_schema_counterexample:
  "validate_ref env_ok [] [(''E'', JObj [])] ''D'' (JObj [(''x'', ref_E)]) ''/x'' ref_E
     = Inr (ValidationError REF ''D'' ''SCHEMA_NOT_FOUND'' (Exc KeyError) [(''ref'', JStr ''E'')])"
  by (simp add: validate_ref_def ref_E_def)

section \<open>The order of checks in validate_ref\<close>

lemma dict_getitem_KeyError_iff:
  "dict_getitem d k = Inl KeyError \<longleftrightarrow> hashable k \<and> (\<forall>s. k = JStr s \<longrightarrow> s \<notin> fst ` set d)"
  by (cases k) (force simp: map_of_eq_None_iff dest: map_of_SomeD split: option.splits)+

lemma get_schema_info_loop_raises:
  "get_schema_info_loop info chunks = Inl e \<Longrightarrow> e = KeyError \<or> e = TypeError"
proof (induction info chunks rule: get_schema_info_loop.induct)
  case (1 info)
  then show ?case by simp
next
  case (2 info chunk chunks)
  have sub: "\<And>v key x. subscript v key = Inl x \<Longrightarrow> x = KeyError \<or> x = TypeError"
    by (case_tac v) (auto split: option.splits)
  from 2 show ?case
    by (auto split: if_splits sum.splits dest: sub)
qed

text \<open>
  Claim C4, as amended. \<open>validate_ref\<close> checks in a fixed order, with one reason code per
  failure. First, if looking the \<open>$ref\<close> value up in the data bundle raises KeyError (a
  hashable value that names no document), the outcome is an Error with reason
  \<open>FILE_NOT_FOUND\<close> whose \<open>ref\<close> field is the \<open>$ref\<close> value. Second, if the containing
  document has no \<open>$schema\<close> key, or its \<open>$schema\<close> is a hashable value that names no schema
  of the schema bundle, the reason is \<open>SCHEMA_NOT_FOUND\<close>. Third, if navigating the schema by
  the pointer path raises KeyError (a key \<open>items\<close>, \<open>properties\<close> or the segment itself is
  missing from an object), the reason is \<open>SCHEMA_DEFINITION_NOT_FOUND\<close>.
\<close>

theorem validate_ref_check_order:
  "subscript ref ''$ref'' = Inr refv \<longrightarrow>
     (dict_getitem data_bundle refv = Inl KeyError \<longrightarrow>
        validate_ref env schemas_bundle data_bundle filename data ptr ref
          = Inr (ValidationError REF filename ''FILE_NOT_FOUND'' (Exc KeyError) [(''ref'', refv)]))
   \<and> (dict_getitem data_bundle refv = Inr ref_data
        \<and> (subscript data ''$schema'' = Inl KeyError
           \<or> (\<exists>u. subscript data ''$schema'' = Inr u \<and> dict_getitem schemas_bundle u = Inl KeyError)) \<longrightarrow>
        validate_ref env schemas_bundle data_bundle filename data ptr ref
          = Inr (ValidationError REF filename ''SCHEMA_NOT_FOUND'' (Exc KeyError) [(''ref'', refv)]))
   \<and> (dict_getitem data_bundle refv = Inr ref_data
        \<and> subscript data ''$schema'' = Inr u \<and> dict_getitem schemas_bundle u = Inr schema
        \<and> get_schema_info_from_pointer schema ptr = Inl KeyError \<longrightarrow>
        validate_ref env schemas_bundle data_bundle filename data ptr ref
          = Inr (ValidationError REF filename ''SCHEMA_DEFINITION_NOT_FOUND'' (Exc KeyError)
                   [(''ref'', refv)]))"
  unfolding validate_ref_def by auto

theorem validate_ref_check_order_witness:
  "validate_ref env_ok [] [] ''D'' (JObj [(''$schema'', JStr ''/s.yml''), (''x'', ref_E)]) ''/x'' ref_E
     = Inr (ValidationError REF ''D'' ''FILE_NOT_FOUND'' (Exc KeyError) [(''ref'', JStr ''E'')])
   \<and> validate_ref env_ok [] [(''E'', JObj [])] ''D''
        (JObj [(''$schema'', JStr ''/s.yml''), (''x'', ref_E)]) ''/x'' ref_E
     = Inr (ValidationError REF ''D'' ''SCHEMA_NOT_FOUND'' (Exc KeyError) [(''ref'', JStr ''E'')])
   \<and> validate_ref env_ok [(''/s.yml'', JObj [(''properties'', JObj [])])] [(''E'', JObj [])] ''D''
        (JObj [(''$schema'', JStr ''/s.yml''), (''x'', ref_E)]) ''/x'' ref_E
     = Inr (ValidationError REF ''D'' ''SCHEMA_DEFINITION_NOT_FOUND'' (Exc KeyError)
              [(''ref'', JStr ''E'')])"
  using validate_ref_check_order [of ref_E "JStr ''E''" "[]" env_ok "[]" "''D''"
      "JObj [(''$schema'', JStr ''/s.yml''), (''x'', ref_E)]" "''/x''"]
    validate_ref_check_order [of ref_E "JStr ''E''" "[(''E'', JObj [])]" env_ok "[]" "''D''"
      "JObj [(''$schema'', JStr ''/s.yml''), (''x'', ref_E)]" "''/x''" "JObj []"]
    validate_ref_check_order [of ref_E "JStr ''E''" "[(''E'', JObj [])]" env_ok
      "[(''/s.yml'', JObj [(''properties'', JObj [])])]" "''D''"
      "JObj [(''$schema'', JStr ''/s.yml''), (''x'', ref_E)]" "''/x''" "JObj []"
      "JStr ''/s.yml''" "JObj [(''properties'', JObj [])]"]
  by (simp add: ref_E_def get_schema_info_from_pointer_def isdigit_def)

text \<open>
  Claim C4 as stated fails: not every failure becomes an outcome. With the tuple-typed
  array schema \<open>{items: [{type: "object"}]}\<close> at \<open>/l\<close>, navigating \<open>/l/0/a\<close> reaches a
  list, and subscripting it with \<open>properties\<close> raises TypeError; a \<open>$ref\<close> whose value is a
  list cannot be looked up either and raises TypeError.
\<close>

theorem validate_ref_check_order_counterexample:
  "validate_ref env_ok
     [(''/s.yml'', JObj [(''properties'', JObj [(''l'',
        JObj [(''type'', JStr ''array''), (''items'', JArr [JObj [(''type'', JStr ''object'')]])])])])]
     [(''E'', JObj [])] ''D''
     (JObj [(''$schema'', JStr ''/s.yml''), (''l'', JArr [JObj [(''a'', ref_E)]])]) ''/l/0/a'' ref_E
   = Inl TypeError
   \<and> validate_ref env_ok [] [] ''D'' (JObj [(''x'', JObj [(''$ref'', JArr [JStr ''E''])])]) ''/x''
       (JObj [(''$ref'', JArr [JStr ''E''])])
   = Inl TypeError"
  by (simp add: validate_ref_def ref_E_def get_schema_info_from_pointer_def isdigit_def)

section \<open>Exceptions that leave a validator\<close>

text \<open>The three branches of the \<open>$schemaRef\<close> cross-check, once the referenced document's
  \<open>$schema\<close> can be read.\<close>

lemma validate_ref_expected_absent:
  "dict_get schema_info ''$schemaRef'' = Inr JNull \<Longrightarrow>
     validate_ref_expected env filename refv schema_url ref_data schema_info
       = Inr (ValidationRefOK REF filename refv schema_url)"
  by (simp add: validate_ref_expected_def)

lemma validate_ref_expected_string:
  "dict_get schema_info ''$schemaRef'' = Inr (JStr s) \<Longrightarrow>
   subscript ref_data ''$schema'' = Inr got \<Longrightarrow>
     validate_ref_expected env filename refv schema_url ref_data schema_info
       = (if got = JStr s then Inr (ValidationRefOK REF filename refv schema_url)
          else Inr (ValidationError REF filename ''INCORRECT_SCHEMA''
                      (Exc (IncorrectSchema got (JStr s))) [(''ref'', refv)]))"
  by (auto simp: validate_ref_expected_def)

lemma validate_ref_expected_schema:
  "dict_get schema_info ''$schemaRef'' = Inr x \<Longrightarrow> x \<noteq> JNull \<Longrightarrow> \<forall>s. x \<noteq> JStr s \<Longrightarrow>
     validate_ref_expected env filename refv schema_url ref_data schema_info
       = (case draft4_validate env None x ref_data of
            None \<Rightarrow> Inr (ValidationRefOK REF filename refv schema_url)
          | Some e \<Rightarrow>
              if e = JsValidationError then
                Inr (ValidationError REF filename ''SCHEMA_REF_VALIDATION_ERROR'' (Exc e) [])
              else Inl e)"
  by (cases x) (simp_all add: validate_ref_expected_def)

text \<open>A meta-schema that is neither in the bundle nor fetched ends the run.\<close>

lemma validate_schema_missing_schema_file:
  "subscript schema_data ''$schema'' = Inr (JStr u) \<Longrightarrow> u \<notin> fst ` set schemas_bundle \<Longrightarrow>
   \<not> startswith u ''http'' \<Longrightarrow>
     validate_schema env schemas_bundle filename schema_data = Inl (MissingSchemaFile u)"
  by (simp add: validate_schema_def fetch_schema_def)

lemma validate_schema_fetch_raises:
  "subscript schema_data ''$schema'' = Inr (JStr u) \<Longrightarrow> u \<notin> fst ` set schemas_bundle \<Longrightarrow>
   startswith u ''http'' \<Longrightarrow> requests_get env u = Inl e \<Longrightarrow>
     validate_schema env schemas_bundle filename schema_data = Inl e"
  by (simp add: validate_schema_def fetch_schema_def)

text \<open>A meta-schema that is fetched is inserted into the dict the schema loop iterates
  over, and the loop ends with RuntimeError.\<close>

lemma main_fetched_meta_schema:
  "main env_ok False
     (JObj [(''data'', JObj []),
            (''schemas'', JObj [(''/s.yml'',
               JObj [(''$schema'', JStr ''http://json-schema.org/draft-04/schema#'')])])])
   = Inl RuntimeError"
  by code_simp

text \<open>
  Claim C2, at the input where the code departs from it. The schema node at \<open>/x\<close>
  carries the string annotation \<open>$schemaRef: "/t.yml"\<close> and the referenced document \<open>E\<close>
  has no \<open>$schema\<close> key, so its schema does not equal the annotation; the claim asks for
  an Error with reason \<open>INCORRECT_SCHEMA\<close>, and \<open>validate_ref\<close> raises KeyError.
\<close>

theorem validate_ref_referenced_without_schema:
  "validate_ref env_ok
     [(''/s.yml'', JObj [(''properties'', JObj [(''x'', JObj [(''$schemaRef'', JStr ''/t.yml'')])])])]
     [(''D'', JObj [(''$schema'', JStr ''/s.yml''), (''x'', ref_E)]),
      (''E'', JObj [(''name'', JStr ''e'')])]
     ''D'' (JObj [(''$schema'', JStr ''/s.yml''), (''x'', ref_E)]) ''/x'' ref_E
   = Inl KeyError"
  by (simp add: validate_ref_def validate_ref_expected_def ref_E_def
      get_schema_info_from_pointer_def isdigit_def)

text \<open>
  Claim C3, at the input where the code departs from it. The containing document
  \<open>{"x": {"provider": "resource", "path": "/a.yml"}}\<close> has no \<open>$schema\<close> key and the
  resource file is a valid Deployment object; \<open>validate_resource_paths\<close> raises KeyError
  instead of returning an outcome.
\<close>

theorem validate_resource_paths_without_schema:
  "validate_resource_paths env_ok [] [] ''D'' (JObj [(''x'', res_a)]) ''/x'' res_a = Inl KeyError"
  by code_simp

text \<open>
  Claim C9, at an input where the code departs from it. The bundle has no schema at all,
  so no meta-schema is fetched; its one document has no \<open>$schema\<close> key and names a valid
  resource file. The run is aborted by a KeyError.
\<close>

theorem main_aborts_without_fetch:
  "main env_ok False
     (JObj [(''data'', JObj [(''D'', JObj [(''x'', res_a)])]), (''schemas'', JObj [])])
   = Inl KeyError"
  by code_simp

section \<open>Structural checks on a resource file\<close>





section \<open>What reference discovery returns\<close>



section \<open>Reference discovery is complete and precise\<close>


























section \<open>Schema identifiers in validate_file and validate_ref\<close>




section \<open>The orchestrator: order of the outcomes and exit status\<close>


















end
